theory Spec2Isabelle
  imports Complex_Main
begin

section \<open>Particle effects of \<^verbatim>\<open>objects/particle.py\<close>\<close>

text \<open>
  The module holds four classes: \<^verbatim>\<open>Particle\<close>, \<^verbatim>\<open>ExplosionParticle\<close>,
  \<^verbatim>\<open>ExplosionManager\<close> and \<^verbatim>\<open>Fireball\<close>. Each class is a record here, each method a
  function from the object (and its arguments) to the updated object. The fields carry a
  prefix (\<open>p_\<close>, \<open>ep_\<close>, \<open>em_\<close>, \<open>fb_\<close>), because the classes share the names
  \<^verbatim>\<open>x\<close>, \<^verbatim>\<open>y\<close>, \<^verbatim>\<open>color\<close> and \<^verbatim>\<open>size\<close>.

  Numbers: Python's \<^verbatim>\<open>int\<close> is \<open>int\<close>. Python's \<^verbatim>\<open>float\<close> is idealised as \<open>real\<close>:
  the rounding of binary floating point is not modelled. The counters \<^verbatim>\<open>age\<close>,
  \<^verbatim>\<open>lifetime\<close>, \<^verbatim>\<open>life\<close> and \<^verbatim>\<open>max_life\<close> only ever hold integers and are \<open>int\<close>.

  Randomness: the module draws from Python's global generator. Every function that draws
  takes the raw draws of its call as an argument, in the order the source makes them.
\<close>

subsection \<open>Library functions the module calls\<close>

type_synonym color = "int \<times> int \<times> int"

text \<open>
  \<^verbatim>\<open>random.randint(a, b)\<close> is \<^verbatim>\<open>a + randbelow(b - a + 1)\<close>; the argument \<open>k\<close> is the raw
  draw that \<^verbatim>\<open>randbelow\<close> reduces below its bound.
\<close>

definition randint :: "int \<Rightarrow> int \<Rightarrow> nat \<Rightarrow> int" where
  "randint a b k = a + int (k mod nat (b - a + 1))"

text \<open>\<^verbatim>\<open>random.uniform(a, b)\<close> is \<^verbatim>\<open>a + (b - a) * random()\<close>; \<open>u\<close> is the value of \<^verbatim>\<open>random()\<close>.\<close>

definition uniform :: "real \<Rightarrow> real \<Rightarrow> real \<Rightarrow> real" where
  "uniform a b u = a + (b - a) * u"

text \<open>\<^verbatim>\<open>random.choice(seq)\<close> is \<^verbatim>\<open>seq[randbelow(len(seq))]\<close>.\<close>

definition choice :: "'a list \<Rightarrow> nat \<Rightarrow> 'a" where
  "choice seq k = seq ! (k mod length seq)"

text \<open>\<^verbatim>\<open>int(v)\<close> of a float truncates toward zero.\<close>

definition py_int :: "real \<Rightarrow> int" where
  "py_int v = (if 0 \<le> v then \<lfloor>v\<rfloor> else \<lceil>v\<rceil>)"

text \<open>
  The screen is the list of the drawing commands it has received, oldest first.
  \<^verbatim>\<open>pygame.draw.circle(screen, color, center, radius)\<close> appends \<open>Circle color center radius\<close>.
\<close>

datatype draw_cmd = Circle color "int \<times> int" int

type_synonym screen = "draw_cmd list"

subsection \<open>Particle\<close>

record particle =
  p_x :: real
  p_y :: real
  p_color :: color
  p_size :: real
  p_velocity_x :: real
  p_velocity_y :: real
  p_gravity :: real
  p_lifetime :: int
  p_age :: int

text \<open>The three draws of \<^verbatim>\<open>Particle.__init__\<close>: size, velocity_x, velocity_y.\<close>

record particle_draws =
  pd_size :: nat
  pd_velocity_x :: real
  pd_velocity_y :: real

definition Particle_init :: "real \<Rightarrow> real \<Rightarrow> color \<Rightarrow> particle_draws \<Rightarrow> particle" where
  "Particle_init x y color d =
     \<lparr> p_x = x,
       p_y = y,
       p_color = color,
       p_size = real_of_int (randint 3 6 (pd_size d)),
       p_velocity_x = uniform (-3) 3 (pd_velocity_x d),
       p_velocity_y = uniform (-5) (-2) (pd_velocity_y d),
       p_gravity = 0.3,
       p_lifetime = 30,
       p_age = 0 \<rparr>"

text \<open>
  \<^verbatim>\<open>update\<close> assigns the fields one after the other; \<^verbatim>\<open>y\<close> is moved by the velocity
  before gravity is added to it.
\<close>

definition Particle_update :: "particle \<Rightarrow> particle" where
  "Particle_update p =
     p\<lparr> p_x := p_x p + p_velocity_x p,
        p_y := p_y p + p_velocity_y p,
        p_velocity_y := p_velocity_y p + p_gravity p,
        p_age := p_age p + 1,
        p_size := max 1 (p_size p - 0.1) \<rparr>"

definition Particle_draw :: "particle \<Rightarrow> screen \<Rightarrow> screen" where
  "Particle_draw p screen =
     (if p_age p < p_lifetime p
      then screen @ [Circle (p_color p) (py_int (p_x p), py_int (p_y p)) (py_int (p_size p))]
      else screen)"

definition Particle_is_dead :: "particle \<Rightarrow> bool" where
  "Particle_is_dead p = (p_age p \<ge> p_lifetime p \<or> p_size p \<le> 1)"

subsection \<open>ExplosionParticle\<close>

record explosion_particle =
  ep_x :: real
  ep_y :: real
  ep_vx :: real
  ep_vy :: real
  ep_color :: color
  ep_size :: real
  ep_life :: int
  ep_max_life :: int
  ep_glow_size :: int

text \<open>The five draws of \<^verbatim>\<open>ExplosionParticle.__init__\<close>: angle, speed, size, life, glow_size.\<close>

record explosion_draws =
  ed_angle :: real
  ed_speed :: real
  ed_size :: nat
  ed_life :: nat
  ed_glow_size :: nat

definition ExplosionParticle_init ::
  "real \<Rightarrow> real \<Rightarrow> color \<Rightarrow> explosion_draws \<Rightarrow> explosion_particle" where
  "ExplosionParticle_init x y color d =
     (let angle = uniform 0 (2 * pi) (ed_angle d);
          speed = uniform 2 8 (ed_speed d);
          life = randint 25 45 (ed_life d)
      in \<lparr> ep_x = x,
           ep_y = y,
           ep_vx = cos angle * speed,
           ep_vy = sin angle * speed,
           ep_color = color,
           ep_size = real_of_int (randint 4 10 (ed_size d)),
           ep_life = life,
           ep_max_life = life,
           ep_glow_size = randint 15 30 (ed_glow_size d) \<rparr>)"

text \<open>
  \<^verbatim>\<open>update\<close> mutates the particle and returns \<^verbatim>\<open>self.life > 0\<close>, read after the
  mutation: the result is the pair of the new state and the returned boolean.
\<close>

definition ExplosionParticle_update :: "explosion_particle \<Rightarrow> explosion_particle \<times> bool" where
  "ExplosionParticle_update p =
     (let p' = p\<lparr> ep_x := ep_x p + ep_vx p,
                  ep_y := ep_y p + ep_vy p,
                  ep_vy := ep_vy p + 0.2,
                  ep_life := ep_life p - 1,
                  ep_size := max 1 (ep_size p - 0.15) \<rparr>
      in (p', ep_life p' > 0))"

text \<open>The state after \<open>n\<close> calls of \<^verbatim>\<open>update\<close>, whatever they returned.\<close>

fun ExplosionParticle_updates :: "nat \<Rightarrow> explosion_particle \<Rightarrow> explosion_particle" where
  "ExplosionParticle_updates 0 p = p"
| "ExplosionParticle_updates (Suc n) p =
     ExplosionParticle_updates n (fst (ExplosionParticle_update p))"

subsection \<open>ExplosionManager\<close>

text \<open>
  \<^verbatim>\<open>particles\<close> is a Python list of objects. \<^verbatim>\<open>create_explosion\<close> constructs a new
  object for every entry it appends, and nothing in the module stores a particle twice, so
  no two entries are the same object and the list of their values stands for it.
\<close>

record explosion_manager =
  em_particles :: "explosion_particle list"

definition ExplosionManager_init :: explosion_manager where
  "ExplosionManager_init = \<lparr> em_particles = [] \<rparr>"

text \<open>
  \<^verbatim>\<open>for _ in range(n): particles.append(ExplosionParticle(x, y, color))\<close>. The
  \<open>i\<close>-th construction of a call takes its draws from \<open>ds i\<close>; \<open>i\<close> counts the
  constructions made so far.
\<close>

fun append_particles ::
  "nat \<Rightarrow> real \<Rightarrow> real \<Rightarrow> color \<Rightarrow> (nat \<Rightarrow> explosion_draws) \<Rightarrow> nat
     \<Rightarrow> explosion_particle list \<Rightarrow> explosion_particle list" where
  "append_particles 0 x y color ds i ps = ps"
| "append_particles (Suc n) x y color ds i ps =
     append_particles n x y color ds (Suc i) (ps @ [ExplosionParticle_init x y color (ds i)])"

text \<open>
  The optional arguments \<^verbatim>\<open>color=(255, 200, 50)\<close> and \<^verbatim>\<open>num_particles=50\<close> are
  \<open>None\<close> when the caller leaves them out. \<^verbatim>\<open>range(num_particles)\<close> is empty for a
  negative count, which \<open>nat\<close> renders.
\<close>

definition ExplosionManager_create_explosion ::
  "explosion_manager \<Rightarrow> real \<Rightarrow> real \<Rightarrow> color option \<Rightarrow> int option
     \<Rightarrow> (nat \<Rightarrow> explosion_draws) \<Rightarrow> explosion_manager" where
  "ExplosionManager_create_explosion m x y color_arg num_particles_arg ds =
     (let color = (case color_arg of None \<Rightarrow> (255, 200, 50) | Some c \<Rightarrow> c);
          num_particles = (case num_particles_arg of None \<Rightarrow> 50 | Some k \<Rightarrow> k);
          n = nat num_particles;
          ps1 = append_particles n x y color ds 0 (em_particles m);
          ps2 = append_particles 20 x y (255, 255, 255) ds n ps1;
          ps3 = append_particles 15 x y (255, 150, 0) ds (n + 20) ps2
      in m\<lparr> em_particles := ps3 \<rparr>)"

text \<open>
  \<^verbatim>\<open>[p for p in self.particles if p.update()]\<close>: every particle is updated once, in
  list order, and those whose call returned true are kept.
\<close>

definition update_and_cull :: "explosion_particle list \<Rightarrow> explosion_particle list" where
  "update_and_cull ps = map fst (filter snd (map ExplosionParticle_update ps))"

definition ExplosionManager_update :: "explosion_manager \<Rightarrow> explosion_manager" where
  "ExplosionManager_update m = m\<lparr> em_particles := update_and_cull (em_particles m) \<rparr>"

subsection \<open>Fireball\<close>

typedecl image

record fireball =
  fb_x :: real
  fb_y :: real
  fb_target_x :: real
  fb_target_y :: real
  fb_speed :: real
  fb_active :: bool
  fb_trail_particles :: "explosion_particle list"
  fb_fireball_image :: "image option"
  fb_vx :: real
  fb_vy :: real
  fb_radius :: int

text \<open>
  \<open>fireball_image\<close> is the optional argument (\<open>None\<close> by default). \<open>loaded\<close> is
  what the \<^verbatim>\<open>try\<close> block leaves when it runs: the scaled image, or \<open>None\<close> when
  loading raised.
\<close>

definition Fireball_init ::
  "real \<Rightarrow> real \<Rightarrow> real \<Rightarrow> real \<Rightarrow> image option \<Rightarrow> image option \<Rightarrow> fireball" where
  "Fireball_init x y target_x target_y fireball_image loaded =
     (let speed = 12;
          dx = target_x - x;
          dy = target_y - y;
          distance = sqrt (dx\<^sup>2 + dy\<^sup>2)
      in \<lparr> fb_x = x,
           fb_y = y,
           fb_target_x = target_x,
           fb_target_y = target_y,
           fb_speed = speed,
           fb_active = True,
           fb_trail_particles = [],
           fb_fireball_image = (case fireball_image of None \<Rightarrow> loaded | Some img \<Rightarrow> Some img),
           fb_vx = (if distance > 0 then (dx / distance) * speed else 0),
           fb_vy = (if distance > 0 then (dy / distance) * speed else - speed),
           fb_radius = 15 \<rparr>)"

text \<open>
  The draws of one \<^verbatim>\<open>Fireball.update\<close>: \<^verbatim>\<open>random.random()\<close>, then, when a trail
  particle is spawned, the index of \<^verbatim>\<open>random.choice\<close> and the draws of the particle.
\<close>

record fireball_draws =
  fd_random :: real
  fd_choice :: nat
  fd_particle :: explosion_draws

definition Fireball_update :: "fireball_draws \<Rightarrow> fireball \<Rightarrow> fireball" where
  "Fireball_update d fb =
     (let x = fb_x fb + fb_vx fb;
          y = fb_y fb + fb_vy fb;
          trail = (if fd_random d < 0.3
                   then (let trail_color = choice [(255, 150, 0), (255, 200, 50), (255, 100, 0)]
                                             (fd_choice d)
                         in fb_trail_particles fb
                              @ [ExplosionParticle_init x y trail_color (fd_particle d)])
                   else fb_trail_particles fb)
      in fb\<lparr> fb_x := x,
              fb_y := y,
              fb_trail_particles := update_and_cull trail,
              fb_active := (if y < -50 \<or> y > 800 \<or> x < -50 \<or> x > 750
                            then False else fb_active fb) \<rparr>)"

text \<open>A run of \<^verbatim>\<open>update\<close> calls, one for each element of the list of draws.\<close>

fun Fireball_updates :: "fireball_draws list \<Rightarrow> fireball \<Rightarrow> fireball" where
  "Fireball_updates [] fb = fb"
| "Fireball_updates (d # ds) fb = Fireball_updates ds (Fireball_update d fb)"

section \<open>Properties\<close>

subsection \<open>Field-wise effect of the methods\<close>

lemma randint_bounds: "a \<le> b \<Longrightarrow> a \<le> randint a b k \<and> randint a b k \<le> b"
proof -
  assume ab: "a \<le> b"
  then have pos: "0 < nat (b - a + 1)" by simp
  have "k mod nat (b - a + 1) < nat (b - a + 1)" using pos by (rule mod_less_divisor)
  then have "int (k mod nat (b - a + 1)) < b - a + 1" using ab by linarith
  then show ?thesis by (simp add: randint_def)
qed

lemma Particle_update_fields:
  "p_x (Particle_update p) = p_x p + p_velocity_x p"
  "p_y (Particle_update p) = p_y p + p_velocity_y p"
  "p_velocity_x (Particle_update p) = p_velocity_x p"
  "p_velocity_y (Particle_update p) = p_velocity_y p + p_gravity p"
  "p_gravity (Particle_update p) = p_gravity p"
  "p_age (Particle_update p) = p_age p + 1"
  "p_lifetime (Particle_update p) = p_lifetime p"
  "p_color (Particle_update p) = p_color p"
  "p_size (Particle_update p) = max 1 (p_size p - 0.1)"
  by (simp_all add: Particle_update_def)

lemma Particle_updates_age:
  "p_age ((Particle_update ^^ n) p) = p_age p + int n \<and>
   p_lifetime ((Particle_update ^^ n) p) = p_lifetime p"
  by (induction n) (simp_all add: Particle_update_fields)

lemma Particle_updates_size_Suc: "1 \<le> p_size ((Particle_update ^^ Suc n) p)"
  by (simp add: Particle_update_fields)

lemma Particle_updates_size: "1 \<le> p_size p \<Longrightarrow> 1 \<le> p_size ((Particle_update ^^ n) p)"
  by (cases n) (simp_all add: Particle_update_fields)

lemma Particle_init_size:
  "3 \<le> p_size (Particle_init x y color d) \<and> p_size (Particle_init x y color d) \<le> 6"
  using randint_bounds [of 3 6 "pd_size d"] by (simp add: Particle_init_def)

lemma ExplosionParticle_update_fields:
  "ep_x (fst (ExplosionParticle_update p)) = ep_x p + ep_vx p"
  "ep_y (fst (ExplosionParticle_update p)) = ep_y p + ep_vy p"
  "ep_vx (fst (ExplosionParticle_update p)) = ep_vx p"
  "ep_vy (fst (ExplosionParticle_update p)) = ep_vy p + 0.2"
  "ep_color (fst (ExplosionParticle_update p)) = ep_color p"
  "ep_size (fst (ExplosionParticle_update p)) = max 1 (ep_size p - 0.15)"
  "ep_life (fst (ExplosionParticle_update p)) = ep_life p - 1"
  "ep_max_life (fst (ExplosionParticle_update p)) = ep_max_life p"
  "ep_glow_size (fst (ExplosionParticle_update p)) = ep_glow_size p"
  "snd (ExplosionParticle_update p) = (0 < ep_life p - 1)"
  by (simp_all add: ExplosionParticle_update_def Let_def)

lemma ExplosionParticle_updates_Suc_right:
  "ExplosionParticle_updates (Suc n) p
     = fst (ExplosionParticle_update (ExplosionParticle_updates n p))"
  by (induction n arbitrary: p) simp_all

lemma ExplosionParticle_updates_size_Suc: "1 \<le> ep_size (ExplosionParticle_updates (Suc n) p)"
  unfolding ExplosionParticle_updates_Suc_right by (simp add: ExplosionParticle_update_fields)

lemma ExplosionParticle_updates_size:
  "1 \<le> ep_size p \<Longrightarrow> 1 \<le> ep_size (ExplosionParticle_updates n p)"
  by (cases n) (simp, simp only: ExplosionParticle_updates_size_Suc)

lemma ExplosionParticle_init_size:
  "4 \<le> ep_size (ExplosionParticle_init x y color d) \<and>
   ep_size (ExplosionParticle_init x y color d) \<le> 10"
  using randint_bounds [of 4 10 "ed_size d"] by (simp add: ExplosionParticle_init_def Let_def)

lemma ExplosionParticle_updates_frame:
  "ep_color (ExplosionParticle_updates n p) = ep_color p \<and>
   ep_max_life (ExplosionParticle_updates n p) = ep_max_life p \<and>
   ep_glow_size (ExplosionParticle_updates n p) = ep_glow_size p \<and>
   ep_vx (ExplosionParticle_updates n p) = ep_vx p \<and>
   ep_life (ExplosionParticle_updates n p) = ep_life p - int n"
  by (induction n arbitrary: p) (simp_all add: ExplosionParticle_update_fields)

lemma update_and_cull_alive: "q \<in> set (update_and_cull ps) \<Longrightarrow> 0 < ep_life q"
  by (auto simp: update_and_cull_def ExplosionParticle_update_def Let_def)

lemma append_particles_eq:
  "append_particles n x y color ds i ps =
     ps @ map (\<lambda>j. ExplosionParticle_init x y color (ds j)) [i..<i + n]"
proof (induction n arbitrary: i ps)
  case 0
  show ?case by simp
next
  case (Suc n)
  have "[i..<i + Suc n] = i # [Suc i..<Suc i + n]" by (simp add: upt_rec)
  then show ?case by (simp add: Suc.IH)
qed

lemma ExplosionParticle_init_fields:
  "ep_x (ExplosionParticle_init x y color d) = x"
  "ep_y (ExplosionParticle_init x y color d) = y"
  "ep_color (ExplosionParticle_init x y color d) = color"
  "ep_life (ExplosionParticle_init x y color d) = randint 25 45 (ed_life d)"
  "ep_max_life (ExplosionParticle_init x y color d) = randint 25 45 (ed_life d)"
  by (simp_all add: ExplosionParticle_init_def Let_def)

subsection \<open>The velocity a \<^verbatim>\<open>Fireball\<close> starts with\<close>

lemma Fireball_init_velocity:
  "fb_vx (Fireball_init x y tx ty img loaded) =
     (if 0 < sqrt ((tx - x)\<^sup>2 + (ty - y)\<^sup>2)
      then (tx - x) / sqrt ((tx - x)\<^sup>2 + (ty - y)\<^sup>2) * 12 else 0)"
  "fb_vy (Fireball_init x y tx ty img loaded) =
     (if 0 < sqrt ((tx - x)\<^sup>2 + (ty - y)\<^sup>2)
      then (ty - y) / sqrt ((tx - x)\<^sup>2 + (ty - y)\<^sup>2) * 12 else - 12)"
  by (simp_all add: Fireball_init_def Let_def)

lemma distance_pos: "(0 < sqrt ((a::real)\<^sup>2 + b\<^sup>2)) = (a \<noteq> 0 \<or> b \<noteq> 0)"
  by (simp add: sum_power2_gt_zero_iff)

lemma scaled_unit_norm:
  assumes "(a::real) \<noteq> 0 \<or> b \<noteq> 0"
  shows "(a / sqrt (a\<^sup>2 + b\<^sup>2) * 12)\<^sup>2 + (b / sqrt (a\<^sup>2 + b\<^sup>2) * 12)\<^sup>2 = 144"
proof -
  define s where "s = sqrt (a\<^sup>2 + b\<^sup>2)"
  have pos: "0 < a\<^sup>2 + b\<^sup>2" using assms by (simp add: sum_power2_gt_zero_iff)
  then have s2: "s\<^sup>2 = a\<^sup>2 + b\<^sup>2" by (simp add: s_def)
  have "(a / s * 12)\<^sup>2 + (b / s * 12)\<^sup>2 = 144 * ((a\<^sup>2 + b\<^sup>2) / s\<^sup>2)"
    by (simp add: power_mult_distrib power_divide add_divide_distrib mult.commute)
  also have "\<dots> = 144" using assms by (simp add: s2)
  finally show ?thesis by (simp only: s_def)
qed

subsection \<open>The manager keeps live particles only\<close>

lemma ExplosionManager_updates_alive_Suc:
  "\<forall>q \<in> set (em_particles ((ExplosionManager_update ^^ Suc n) m)). 0 < ep_life q"
  by (simp add: ExplosionManager_update_def update_and_cull_alive)

subsection \<open>One call of \<^verbatim>\<open>Fireball.update\<close>\<close>

lemma Fireball_update_fields:
  "fb_x (Fireball_update d fb) = fb_x fb + fb_vx fb"
  "fb_y (Fireball_update d fb) = fb_y fb + fb_vy fb"
  "fb_vx (Fireball_update d fb) = fb_vx fb"
  "fb_vy (Fireball_update d fb) = fb_vy fb"
  "fb_active (Fireball_update d fb) =
     (if fb_y fb + fb_vy fb < -50 \<or> fb_y fb + fb_vy fb > 800
         \<or> fb_x fb + fb_vx fb < -50 \<or> fb_x fb + fb_vx fb > 750
      then False else fb_active fb)"
  by (simp_all add: Fireball_update_def Let_def)

lemma Fireball_update_inactive:
  "fb_active fb = False \<Longrightarrow> fb_active (Fireball_update d fb) = False"
  by (simp add: Fireball_update_fields)

subsection \<open>What \<^verbatim>\<open>create_explosion\<close> appends\<close>

lemma create_explosion_particles:
  "em_particles (ExplosionManager_create_explosion m x y color_arg num_particles_arg ds) =
     em_particles m
       @ map (\<lambda>j. ExplosionParticle_init x y
                     (case color_arg of None \<Rightarrow> (255, 200, 50) | Some c \<Rightarrow> c) (ds j))
           [0..<nat (case num_particles_arg of None \<Rightarrow> 50 | Some k \<Rightarrow> k)]
       @ map (\<lambda>j. ExplosionParticle_init x y (255, 255, 255) (ds j))
           [nat (case num_particles_arg of None \<Rightarrow> 50 | Some k \<Rightarrow> k)
            ..<nat (case num_particles_arg of None \<Rightarrow> 50 | Some k \<Rightarrow> k) + 20]
       @ map (\<lambda>j. ExplosionParticle_init x y (255, 150, 0) (ds j))
           [nat (case num_particles_arg of None \<Rightarrow> 50 | Some k \<Rightarrow> k) + 20
            ..<nat (case num_particles_arg of None \<Rightarrow> 50 | Some k \<Rightarrow> k) + 20 + 15]"
  by (simp add: ExplosionManager_create_explosion_def Let_def append_particles_eq)

lemma map_color_init:
  "map ep_color (map (\<lambda>j. ExplosionParticle_init x y c (ds j)) [i..<i + n]) = replicate n c"
  by (simp add: ExplosionParticle_init_fields comp_def map_replicate_const)

subsection \<open>Truncation toward zero\<close>

lemma py_int_truncates:
  "\<bar>real_of_int (py_int v)\<bar> \<le> \<bar>v\<bar> \<and> \<bar>v - real_of_int (py_int v)\<bar> < 1"
proof (cases "0 \<le> v")
  case True
  then have "0 \<le> real_of_int \<lfloor>v\<rfloor>" by simp
  moreover have "real_of_int \<lfloor>v\<rfloor> \<le> v" "v < real_of_int \<lfloor>v\<rfloor> + 1" by linarith+
  moreover have "py_int v = \<lfloor>v\<rfloor>" using True by (simp add: py_int_def)
  ultimately show ?thesis by (simp only:) linarith
next
  case False
  then have "real_of_int \<lceil>v\<rceil> \<le> 0" by (simp add: ceiling_le_iff)
  moreover have "v \<le> real_of_int \<lceil>v\<rceil>" "real_of_int \<lceil>v\<rceil> < v + 1" by linarith+
  moreover have "py_int v = \<lceil>v\<rceil>" using False by (simp add: py_int_def)
  ultimately show ?thesis by (simp only:) linarith
qed

section \<open>The claims\<close>

text \<open>
  Claim C1. \<^verbatim>\<open>ExplosionParticle.update\<close> adds the velocity to the position (\<^verbatim>\<open>y\<close> with
  the velocity from before the call), adds 0.2 to \<^verbatim>\<open>vy\<close>, takes 1 from \<^verbatim>\<open>life\<close> and
  sets \<^verbatim>\<open>size\<close> to \<open>max 1 (size - 0.15)\<close>; what it returns is \<open>life > 0\<close> of the
  state it leaves. For a particle that was alive before the call, it returns false exactly
  when the decrement takes \<^verbatim>\<open>life\<close> to 0 or below.
\<close>

theorem ExplosionParticle_update_spec:
  "ep_x (fst (ExplosionParticle_update p)) = ep_x p + ep_vx p \<and>
   ep_y (fst (ExplosionParticle_update p)) = ep_y p + ep_vy p \<and>
   ep_vy (fst (ExplosionParticle_update p)) = ep_vy p + 0.2 \<and>
   ep_life (fst (ExplosionParticle_update p)) = ep_life p - 1 \<and>
   ep_size (fst (ExplosionParticle_update p)) = max 1 (ep_size p - 0.15) \<and>
   snd (ExplosionParticle_update p) = (ep_life (fst (ExplosionParticle_update p)) > 0) \<and>
   (ep_life p > 0 \<longrightarrow>
      (snd (ExplosionParticle_update p) = False) = (ep_life p - 1 \<le> 0))"
  by (simp add: ExplosionParticle_update_fields not_less)

text \<open>
  The theorem at a particle with \<^verbatim>\<open>life = 1\<close>: alive before the call, and the call
  returns false.
\<close>

theorem ExplosionParticle_update_spec_witness:
  "ep_life \<lparr> ep_x = 0, ep_y = 0, ep_vx = 1, ep_vy = -1, ep_color = (255, 200, 50), ep_size = 4,
           ep_life = 1, ep_max_life = 25, ep_glow_size = 15 \<rparr> > 0 \<and>
   snd (ExplosionParticle_update \<lparr> ep_x = 0, ep_y = 0, ep_vx = 1, ep_vy = -1,
           ep_color = (255, 200, 50), ep_size = 4,
           ep_life = 1, ep_max_life = 25, ep_glow_size = 15 \<rparr>) = False"
  using ExplosionParticle_update_spec [of "\<lparr> ep_x = 0, ep_y = 0, ep_vx = 1, ep_vy = -1,
           ep_color = (255, 200, 50), ep_size = 4,
           ep_life = 1, ep_max_life = 25, ep_glow_size = 15 \<rparr>"]
  by simp

text \<open>
  Claim C2. After one or more calls of \<^verbatim>\<open>ExplosionManager.update\<close>, from any state of
  the manager, every particle left in the collection has \<^verbatim>\<open>life > 0\<close>.
\<close>

theorem ExplosionManager_update_alive:
  "0 < n \<Longrightarrow> \<forall>q \<in> set (em_particles ((ExplosionManager_update ^^ n) m)). 0 < ep_life q"
proof (cases n)
  case 0
  assume "0 < n"
  with 0 show ?thesis by simp
next
  case (Suc k)
  show ?thesis unfolding Suc by (rule ExplosionManager_updates_alive_Suc)
qed

text \<open>
  The theorem at a manager that holds a particle with \<^verbatim>\<open>life = 1\<close> and one with
  \<^verbatim>\<open>life = 3\<close>, after two calls: the second particle is left, with \<^verbatim>\<open>life = 1\<close>.
\<close>

theorem ExplosionManager_update_alive_witness:
  "(0::nat) < 2 \<and>
   list_all (\<lambda>q. 0 < ep_life q) (em_particles ((ExplosionManager_update ^^ 2)
       \<lparr> em_particles =
           [\<lparr> ep_x = 0, ep_y = 0, ep_vx = 1, ep_vy = -1, ep_color = (255, 200, 50), ep_size = 4,
              ep_life = 1, ep_max_life = 25, ep_glow_size = 15 \<rparr>,
            \<lparr> ep_x = 0, ep_y = 0, ep_vx = 2, ep_vy = 0, ep_color = (255, 255, 255), ep_size = 5,
              ep_life = 3, ep_max_life = 30, ep_glow_size = 20 \<rparr>] \<rparr>)) \<and>
   map ep_life (em_particles ((ExplosionManager_update ^^ 2)
       \<lparr> em_particles =
           [\<lparr> ep_x = 0, ep_y = 0, ep_vx = 1, ep_vy = -1, ep_color = (255, 200, 50), ep_size = 4,
              ep_life = 1, ep_max_life = 25, ep_glow_size = 15 \<rparr>,
            \<lparr> ep_x = 0, ep_y = 0, ep_vx = 2, ep_vy = 0, ep_color = (255, 255, 255), ep_size = 5,
              ep_life = 3, ep_max_life = 30, ep_glow_size = 20 \<rparr>] \<rparr>)) = [1]"
  using ExplosionManager_update_alive [of 2 "\<lparr> em_particles =
           [\<lparr> ep_x = 0, ep_y = 0, ep_vx = 1, ep_vy = -1, ep_color = (255, 200, 50), ep_size = 4,
              ep_life = 1, ep_max_life = 25, ep_glow_size = 15 \<rparr>,
            \<lparr> ep_x = 0, ep_y = 0, ep_vx = 2, ep_vy = 0, ep_color = (255, 255, 255), ep_size = 5,
              ep_life = 3, ep_max_life = 30, ep_glow_size = 20 \<rparr>] \<rparr>"]
  by (simp add: eval_nat_numeral ExplosionManager_update_def update_and_cull_def
      ExplosionParticle_update_def)

text \<open>
  Claim C3. A newly constructed \<^verbatim>\<open>Particle\<close> has \<^verbatim>\<open>lifetime = 30\<close>, and after 30 calls of
  \<^verbatim>\<open>update\<close> its \<^verbatim>\<open>is_dead\<close> is true. For any particle, \<^verbatim>\<open>is_dead\<close> is true exactly
  when \<open>age \<ge> lifetime\<close> or \<open>size \<le> 1\<close>.
\<close>

theorem Particle_dead_after_lifetime:
  "p_lifetime (Particle_init x y color d) = 30 \<and>
   Particle_is_dead ((Particle_update ^^ 30) (Particle_init x y color d)) \<and>
   Particle_is_dead p = (p_age p \<ge> p_lifetime p \<or> p_size p \<le> 1)"
proof -
  have "p_age ((Particle_update ^^ 30) (Particle_init x y color d)) = 30"
    by (simp add: Particle_updates_age Particle_init_def)
  moreover have "p_lifetime ((Particle_update ^^ 30) (Particle_init x y color d)) = 30"
    by (simp add: Particle_updates_age Particle_init_def)
  ultimately show ?thesis
    by (simp add: Particle_is_dead_def Particle_init_def)
qed

text \<open>
  Claim C4. \<^verbatim>\<open>Fireball.__init__\<close> sets the velocity to the direction from \<open>(x, y)\<close> to
  the target, divided by its length and multiplied by the speed 12, so that the velocity has
  length 12; when the target is the source, the velocity is \<open>(0, -12)\<close>. From \<open>(0, 0)\<close>
  to \<open>(0, 100)\<close> the velocity is \<open>(0, 12)\<close>.
\<close>

theorem Fireball_init_velocity_spec:
  "((x, y) \<noteq> (tx, ty) \<longrightarrow>
      fb_vx (Fireball_init x y tx ty img loaded)
        = (tx - x) / sqrt ((tx - x)\<^sup>2 + (ty - y)\<^sup>2) * 12 \<and>
      fb_vy (Fireball_init x y tx ty img loaded)
        = (ty - y) / sqrt ((tx - x)\<^sup>2 + (ty - y)\<^sup>2) * 12 \<and>
      (fb_vx (Fireball_init x y tx ty img loaded))\<^sup>2
        + (fb_vy (Fireball_init x y tx ty img loaded))\<^sup>2 = 12\<^sup>2) \<and>
   ((x, y) = (tx, ty) \<longrightarrow>
      fb_vx (Fireball_init x y tx ty img loaded) = 0 \<and>
      fb_vy (Fireball_init x y tx ty img loaded) = - 12) \<and>
   fb_vx (Fireball_init 0 0 0 100 img loaded) = 0 \<and>
   fb_vy (Fireball_init 0 0 0 100 img loaded) = 12"
proof -
  have far: "fb_vx (Fireball_init x y tx ty img loaded)
        = (tx - x) / sqrt ((tx - x)\<^sup>2 + (ty - y)\<^sup>2) * 12 \<and>
      fb_vy (Fireball_init x y tx ty img loaded)
        = (ty - y) / sqrt ((tx - x)\<^sup>2 + (ty - y)\<^sup>2) * 12 \<and>
      (fb_vx (Fireball_init x y tx ty img loaded))\<^sup>2
        + (fb_vy (Fireball_init x y tx ty img loaded))\<^sup>2 = 12\<^sup>2"
    if "(x, y) \<noteq> (tx, ty)"
  proof -
    from that have nz: "tx - x \<noteq> 0 \<or> ty - y \<noteq> 0" by auto
    then have pos: "0 < sqrt ((tx - x)\<^sup>2 + (ty - y)\<^sup>2)" by (simp only: distance_pos)
    show ?thesis
      using pos scaled_unit_norm [OF nz] by (simp add: Fireball_init_velocity)
  qed
  have near: "fb_vx (Fireball_init x y tx ty img loaded) = 0 \<and>
      fb_vy (Fireball_init x y tx ty img loaded) = - 12"
    if "(x, y) = (tx, ty)"
    using that by (simp add: Fireball_init_velocity)
  have "sqrt ((100::real)\<^sup>2) = 100" by simp
  then have below: "fb_vx (Fireball_init 0 0 0 100 img loaded) = 0 \<and>
      fb_vy (Fireball_init 0 0 0 100 img loaded) = 12"
    by (simp add: Fireball_init_velocity)
  show ?thesis using far near below by blast
qed

text \<open>
  The theorem from \<open>(0, 0)\<close> to \<open>(3, 4)\<close>, at distance 5, and from \<open>(1, 2)\<close> to
  itself.
\<close>

theorem Fireball_init_velocity_spec_witness:
  "((0::real, 0::real) \<noteq> (3, 4)) \<and>
   fb_vx (Fireball_init 0 0 3 4 None None) = 36 / 5 \<and>
   fb_vy (Fireball_init 0 0 3 4 None None) = 48 / 5 \<and>
   ((1::real, 2::real) = (1, 2)) \<and>
   fb_vx (Fireball_init 1 2 1 2 None None) = 0 \<and>
   fb_vy (Fireball_init 1 2 1 2 None None) = - 12"
proof -
  have "sqrt ((5::real)\<^sup>2) = 5" by simp
  then have s: "sqrt (25::real) = 5" by simp
  show ?thesis
    using Fireball_init_velocity_spec [of 0 0 3 4 None None]
      Fireball_init_velocity_spec [of 1 2 1 2 None None] s
    by simp
qed

text \<open>
  Claim C7. The \<^verbatim>\<open>size\<close> of a \<^verbatim>\<open>Particle\<close> and of an \<^verbatim>\<open>ExplosionParticle\<close> is at
  least 1 after one or more calls of \<^verbatim>\<open>update\<close>, whatever the state before them, and
  after any number of calls (none included) on a newly constructed particle.
\<close>

theorem size_never_below_one:
  "1 \<le> p_size ((Particle_update ^^ Suc n) p) \<and>
   1 \<le> ep_size (ExplosionParticle_updates (Suc n) q) \<and>
   1 \<le> p_size ((Particle_update ^^ n) (Particle_init x y color d)) \<and>
   1 \<le> ep_size (ExplosionParticle_updates n (ExplosionParticle_init x' y' color' d'))"
proof -
  have "1 \<le> p_size (Particle_init x y color d)"
    using Particle_init_size [of x y color d] by simp
  then have a: "1 \<le> p_size ((Particle_update ^^ n) (Particle_init x y color d))"
    by (rule Particle_updates_size)
  have "1 \<le> ep_size (ExplosionParticle_init x' y' color' d')"
    using ExplosionParticle_init_size [of x' y' color' d'] by simp
  then have b: "1 \<le> ep_size (ExplosionParticle_updates n (ExplosionParticle_init x' y' color' d'))"
    by (rule ExplosionParticle_updates_size)
  show ?thesis
    using a b Particle_updates_size_Suc [of n p] ExplosionParticle_updates_size_Suc [of n q]
    by simp
qed

text \<open>
  Claim C10. \<^verbatim>\<open>ExplosionParticle.update\<close> leaves \<^verbatim>\<open>color\<close>, \<^verbatim>\<open>max_life\<close>,
  \<^verbatim>\<open>glow_size\<close> and \<^verbatim>\<open>vx\<close> as they were. After any number of calls on a newly
  constructed particle, \<^verbatim>\<open>max_life\<close> is the \<^verbatim>\<open>life\<close> the constructor drew, a number from
  25 to 45: the denominator of the ratio \<^verbatim>\<open>life / max_life\<close> in \<^verbatim>\<open>draw\<close> stays the same and
  is never 0.
\<close>

theorem ExplosionParticle_update_frame:
  "ep_color (fst (ExplosionParticle_update p)) = ep_color p \<and>
   ep_max_life (fst (ExplosionParticle_update p)) = ep_max_life p \<and>
   ep_glow_size (fst (ExplosionParticle_update p)) = ep_glow_size p \<and>
   ep_vx (fst (ExplosionParticle_update p)) = ep_vx p \<and>
   ep_max_life (ExplosionParticle_updates n (ExplosionParticle_init x y color d))
     = ep_life (ExplosionParticle_init x y color d) \<and>
   ep_life (ExplosionParticle_init x y color d) = randint 25 45 (ed_life d) \<and>
   25 \<le> ep_max_life (ExplosionParticle_updates n (ExplosionParticle_init x y color d)) \<and>
   ep_max_life (ExplosionParticle_updates n (ExplosionParticle_init x y color d)) \<le> 45"
  using randint_bounds [of 25 45 "ed_life d"]
  by (simp add: ExplosionParticle_update_fields ExplosionParticle_updates_frame
      ExplosionParticle_init_fields)

text \<open>
  Claim C5. \<^verbatim>\<open>Fireball.update\<close> moves the fireball by its velocity, and when the
  position after the move is outside the play field (\<^verbatim>\<open>x\<close> below -50 or above 750,
  \<^verbatim>\<open>y\<close> below -50 or above 800) the same call leaves \<^verbatim>\<open>active\<close> false; so does a call
  that moves the fireball to \<^verbatim>\<open>x = 760\<close>.
\<close>

theorem Fireball_update_deactivates:
  "fb_x (Fireball_update d fb) = fb_x fb + fb_vx fb \<and>
   fb_y (Fireball_update d fb) = fb_y fb + fb_vy fb \<and>
   (fb_x (Fireball_update d fb) < -50 \<or> fb_x (Fireball_update d fb) > 750 \<or>
    fb_y (Fireball_update d fb) < -50 \<or> fb_y (Fireball_update d fb) > 800
      \<longrightarrow> fb_active (Fireball_update d fb) = False) \<and>
   (fb_x fb + fb_vx fb = 760 \<longrightarrow> fb_active (Fireball_update d fb) = False)"
  by (auto simp add: Fireball_update_fields)

text \<open>
  The theorem at an active fireball at \<open>(748, 100)\<close> aimed at \<open>(760, 100)\<close>: one call
  takes it to \<^verbatim>\<open>x = 760\<close> and leaves it inactive.
\<close>

theorem Fireball_update_deactivates_witness:
  "fb_active (Fireball_init 748 100 760 100 None None) = True \<and>
   fb_x (Fireball_update
          \<lparr> fd_random = 1 / 2, fd_choice = 0,
            fd_particle = \<lparr> ed_angle = 0, ed_speed = 0, ed_size = 0, ed_life = 0,
                            ed_glow_size = 0 \<rparr> \<rparr>
          (Fireball_init 748 100 760 100 None None)) = 760 \<and>
   (760::real) > 750 \<and>
   fb_active (Fireball_update
          \<lparr> fd_random = 1 / 2, fd_choice = 0,
            fd_particle = \<lparr> ed_angle = 0, ed_speed = 0, ed_size = 0, ed_life = 0,
                            ed_glow_size = 0 \<rparr> \<rparr>
          (Fireball_init 748 100 760 100 None None)) = False"
proof -
  have v: "fb_x (Fireball_init 748 100 760 100 None None) = 748 \<and>
           fb_vx (Fireball_init 748 100 760 100 None None) = 12 \<and>
           fb_active (Fireball_init 748 100 760 100 None None) = True"
    by (simp add: Fireball_init_def Let_def)
  show ?thesis
    using v Fireball_update_deactivates
      [of "\<lparr> fd_random = 1 / 2, fd_choice = 0,
            fd_particle = \<lparr> ed_angle = 0, ed_speed = 0, ed_size = 0, ed_life = 0,
                            ed_glow_size = 0 \<rparr> \<rparr>"
          "Fireball_init 748 100 760 100 None None"]
    by simp
qed

text \<open>
  Claim C6. \<^verbatim>\<open>create_explosion(x, y)\<close> with the default arguments keeps the particles the
  manager holds and appends 85 after them: 50 of colour \<open>(255, 200, 50)\<close>, then 20 of colour
  \<open>(255, 255, 255)\<close>, then 15 of colour \<open>(255, 150, 0)\<close>. With an explicit
  \<^verbatim>\<open>num_particles\<close> it appends \<open>nat num_particles + 35\<close>, which is
  \<open>num_particles + 35\<close> for a count that is not negative.
\<close>

theorem create_explosion_count:
  "take (length (em_particles m))
      (em_particles (ExplosionManager_create_explosion m x y None None ds)) = em_particles m \<and>
   length (em_particles (ExplosionManager_create_explosion m x y None None ds))
     = length (em_particles m) + 85 \<and>
   map ep_color (drop (length (em_particles m))
      (em_particles (ExplosionManager_create_explosion m x y None None ds)))
     = replicate 50 (255, 200, 50) @ replicate 20 (255, 255, 255) @ replicate 15 (255, 150, 0) \<and>
   length (em_particles (ExplosionManager_create_explosion m x y color_arg (Some k) ds))
     = length (em_particles m) + nat k + 35 \<and>
   (0 \<le> k \<longrightarrow>
      int (length (em_particles (ExplosionManager_create_explosion m x y color_arg (Some k) ds)))
        = int (length (em_particles m)) + k + 35)"
proof -
  have c1: "map ep_color (map (\<lambda>j. ExplosionParticle_init x y (255, 200, 50) (ds j)) [0..<50])
              = replicate 50 (255, 200, 50)"
    using map_color_init [of x y "(255, 200, 50)" ds 0 50] by simp
  have c2: "map ep_color (map (\<lambda>j. ExplosionParticle_init x y (255, 255, 255) (ds j)) [50..<70])
              = replicate 20 (255, 255, 255)"
    using map_color_init [of x y "(255, 255, 255)" ds 50 20] by simp
  have c3: "map ep_color (map (\<lambda>j. ExplosionParticle_init x y (255, 150, 0) (ds j)) [70..<85])
              = replicate 15 (255, 150, 0)"
    using map_color_init [of x y "(255, 150, 0)" ds 70 15] by simp
  have d: "em_particles (ExplosionManager_create_explosion m x y None None ds) =
     em_particles m
       @ map (\<lambda>j. ExplosionParticle_init x y (255, 200, 50) (ds j)) [0..<50]
       @ map (\<lambda>j. ExplosionParticle_init x y (255, 255, 255) (ds j)) [50..<70]
       @ map (\<lambda>j. ExplosionParticle_init x y (255, 150, 0) (ds j)) [70..<85]"
    by (simp add: create_explosion_particles)
  have t: "take (length (em_particles m))
      (em_particles (ExplosionManager_create_explosion m x y None None ds)) = em_particles m"
    by (simp only: d append_eq_conv_conj [symmetric]) simp
  have l: "length (em_particles (ExplosionManager_create_explosion m x y None None ds))
     = length (em_particles m) + 85"
    by (simp add: d)
  have "drop (length (em_particles m))
      (em_particles (ExplosionManager_create_explosion m x y None None ds))
      = map (\<lambda>j. ExplosionParticle_init x y (255, 200, 50) (ds j)) [0..<50]
       @ map (\<lambda>j. ExplosionParticle_init x y (255, 255, 255) (ds j)) [50..<70]
       @ map (\<lambda>j. ExplosionParticle_init x y (255, 150, 0) (ds j)) [70..<85]"
    by (simp only: d drop_append) simp
  then have cs: "map ep_color (drop (length (em_particles m))
      (em_particles (ExplosionManager_create_explosion m x y None None ds)))
     = replicate 50 (255, 200, 50) @ replicate 20 (255, 255, 255) @ replicate 15 (255, 150, 0)"
    by (simp only: map_append c1 c2 c3)
  have e: "int (length (em_particles (ExplosionManager_create_explosion m x y color_arg (Some k) ds)))
        = int (length (em_particles m)) + k + 35" if "0 \<le> k"
    using that by (simp add: create_explosion_particles)
  have g: "length (em_particles (ExplosionManager_create_explosion m x y color_arg (Some k) ds))
     = length (em_particles m) + nat k + 35"
    by (simp add: create_explosion_particles)
  show ?thesis using t l cs g e by blast
qed

text \<open>
  The theorem at a new manager with \<^verbatim>\<open>num_particles = 2\<close>: 37 particles.
\<close>

theorem create_explosion_count_witness:
  "(0::int) \<le> 2 \<and>
   int (length (em_particles
      (ExplosionManager_create_explosion ExplosionManager_init 10 20 (Some (1, 2, 3)) (Some 2)
         (\<lambda>j. \<lparr> ed_angle = 0, ed_speed = 0, ed_size = j, ed_life = j, ed_glow_size = j \<rparr>))))
     = int (length (em_particles ExplosionManager_init)) + 2 + 35 \<and>
   length (em_particles ExplosionManager_init) = 0"
  using create_explosion_count [of ExplosionManager_init 10 20
      "\<lambda>j. \<lparr> ed_angle = 0, ed_speed = 0, ed_size = j, ed_life = j, ed_glow_size = j \<rparr>"
      "Some (1, 2, 3)" 2]
  by (simp add: ExplosionManager_init_def)

text \<open>
  Claim C8, as stated: for \<open>age < lifetime\<close>, \<^verbatim>\<open>Particle.draw\<close> emits one circle at
  \<open>(round x, round y)\<close>. It fails for a new particle at \<open>(2.75, 0)\<close> of size 3: the
  source converts with \<^verbatim>\<open>int\<close>, which truncates, and the circle is drawn at
  \<open>(2, 0)\<close>, not at \<open>(3, 0)\<close>.
\<close>

theorem Particle_draw_not_rounded:
  "p_age (Particle_init 2.75 0 (255, 0, 0)
            \<lparr> pd_size = 0, pd_velocity_x = 0, pd_velocity_y = 0 \<rparr>)
     < p_lifetime (Particle_init 2.75 0 (255, 0, 0)
            \<lparr> pd_size = 0, pd_velocity_x = 0, pd_velocity_y = 0 \<rparr>) \<and>
   p_size (Particle_init 2.75 0 (255, 0, 0)
            \<lparr> pd_size = 0, pd_velocity_x = 0, pd_velocity_y = 0 \<rparr>) = 3 \<and>
   Particle_draw (Particle_init 2.75 0 (255, 0, 0)
            \<lparr> pd_size = 0, pd_velocity_x = 0, pd_velocity_y = 0 \<rparr>) []
     = [Circle (255, 0, 0) (2, 0) 3] \<and>
   Particle_draw (Particle_init 2.75 0 (255, 0, 0)
            \<lparr> pd_size = 0, pd_velocity_x = 0, pd_velocity_y = 0 \<rparr>) []
     \<noteq> [Circle (255, 0, 0) (round (2.75 :: real), round (0 :: real)) 3]"
proof -
  have r: "round (11 / 4 :: real) = 3" by (simp add: round_def)
  show ?thesis
    by (simp add: Particle_draw_def Particle_init_def py_int_def randint_def r)
qed

text \<open>
  Claim C8, amended. For \<open>age < lifetime\<close>, \<^verbatim>\<open>Particle.draw\<close> emits exactly one circle,
  of the particle's colour, with centre \<open>(int x, int y)\<close> and radius \<open>int size\<close>, where
  \<^verbatim>\<open>int\<close> truncates toward zero (it is within 1 of its argument and no larger in absolute
  value); for \<open>age \<ge> lifetime\<close> it emits nothing.
\<close>

theorem Particle_draw_spec:
  "(p_age p < p_lifetime p \<longrightarrow>
      Particle_draw p screen
        = screen @ [Circle (p_color p) (py_int (p_x p), py_int (p_y p)) (py_int (p_size p))]) \<and>
   (p_age p \<ge> p_lifetime p \<longrightarrow> Particle_draw p screen = screen) \<and>
   \<bar>real_of_int (py_int v)\<bar> \<le> \<bar>v\<bar> \<and> \<bar>v - real_of_int (py_int v)\<bar> < 1"
  using py_int_truncates [of v] by (simp add: Particle_draw_def)

text \<open>
  The theorem at a particle constructed at \<open>(-1.5, 7.25)\<close> and updated once (position
  \<open>(-4.5, 2.25)\<close>, size 4.9), and at a particle updated 30 times.
\<close>

theorem Particle_draw_spec_witness:
  "p_age (Particle_update (Particle_init (- 1.5) 7.25 (0, 255, 0)
            \<lparr> pd_size = 2, pd_velocity_x = 0, pd_velocity_y = 0 \<rparr>))
     < p_lifetime (Particle_update (Particle_init (- 1.5) 7.25 (0, 255, 0)
            \<lparr> pd_size = 2, pd_velocity_x = 0, pd_velocity_y = 0 \<rparr>)) \<and>
   Particle_draw (Particle_update (Particle_init (- 1.5) 7.25 (0, 255, 0)
            \<lparr> pd_size = 2, pd_velocity_x = 0, pd_velocity_y = 0 \<rparr>)) []
     = [Circle (0, 255, 0) (- 4, 2) 4] \<and>
   p_age ((Particle_update ^^ 30) (Particle_init 0 0 (0, 255, 0)
            \<lparr> pd_size = 2, pd_velocity_x = 0, pd_velocity_y = 0 \<rparr>))
     \<ge> p_lifetime ((Particle_update ^^ 30) (Particle_init 0 0 (0, 255, 0)
            \<lparr> pd_size = 2, pd_velocity_x = 0, pd_velocity_y = 0 \<rparr>)) \<and>
   Particle_draw ((Particle_update ^^ 30) (Particle_init 0 0 (0, 255, 0)
            \<lparr> pd_size = 2, pd_velocity_x = 0, pd_velocity_y = 0 \<rparr>)) [] = []"
proof -
  have a: "p_age ((Particle_update ^^ 30) (Particle_init 0 0 (0, 255, 0)
            \<lparr> pd_size = 2, pd_velocity_x = 0, pd_velocity_y = 0 \<rparr>)) = 30 \<and>
        p_lifetime ((Particle_update ^^ 30) (Particle_init 0 0 (0, 255, 0)
            \<lparr> pd_size = 2, pd_velocity_x = 0, pd_velocity_y = 0 \<rparr>)) = 30"
    by (simp add: Particle_updates_age Particle_init_def)
  have c: "\<lceil>- (9 / 2) :: real\<rceil> = - 4" by (simp add: ceiling_unique)
  have f: "\<lfloor>49 / 10 :: real\<rfloor> = 4" "\<lfloor>9 / 4 :: real\<rfloor> = 2" by simp_all
  show ?thesis
    using a
      Particle_draw_spec [of "Particle_update (Particle_init (- 1.5) 7.25 (0, 255, 0)
            \<lparr> pd_size = 2, pd_velocity_x = 0, pd_velocity_y = 0 \<rparr>)" "[]" 0]
      Particle_draw_spec [of "(Particle_update ^^ 30) (Particle_init 0 0 (0, 255, 0)
            \<lparr> pd_size = 2, pd_velocity_x = 0, pd_velocity_y = 0 \<rparr>)" "[]" 0]
    by (simp add: Particle_update_def Particle_init_def py_int_def randint_def uniform_def c f)
qed

text \<open>
  Claim C9. A \<^verbatim>\<open>Fireball\<close> whose \<^verbatim>\<open>active\<close> is false keeps it false through any
  sequence of \<^verbatim>\<open>update\<close> calls, whatever they draw.
\<close>

theorem Fireball_never_reactivates:
  "fb_active fb = False \<Longrightarrow> fb_active (Fireball_updates ds fb) = False"
proof (induction ds arbitrary: fb)
  case Nil
  then show ?case by simp
next
  case (Cons d ds)
  from Cons.prems have "fb_active (Fireball_update d fb) = False"
    by (rule Fireball_update_inactive)
  then have "fb_active (Fireball_updates ds (Fireball_update d fb)) = False"
    by (rule Cons.IH)
  then show ?case by simp
qed

text \<open>
  The theorem at an inactive fireball inside the play field, through two calls, the first
  of which spawns a trail particle.
\<close>

theorem Fireball_never_reactivates_witness:
  "fb_active ((Fireball_init 0 0 0 100 None None)\<lparr> fb_active := False \<rparr>) = False \<and>
   fb_y (Fireball_updates
      [\<lparr> fd_random = 0, fd_choice = 1,
         fd_particle = \<lparr> ed_angle = 0, ed_speed = 0, ed_size = 0, ed_life = 0,
                         ed_glow_size = 0 \<rparr> \<rparr>,
       \<lparr> fd_random = 1 / 2, fd_choice = 0,
         fd_particle = \<lparr> ed_angle = 0, ed_speed = 0, ed_size = 0, ed_life = 0,
                         ed_glow_size = 0 \<rparr> \<rparr>]
      ((Fireball_init 0 0 0 100 None None)\<lparr> fb_active := False \<rparr>)) = 24 \<and>
   fb_active (Fireball_updates
      [\<lparr> fd_random = 0, fd_choice = 1,
         fd_particle = \<lparr> ed_angle = 0, ed_speed = 0, ed_size = 0, ed_life = 0,
                         ed_glow_size = 0 \<rparr> \<rparr>,
       \<lparr> fd_random = 1 / 2, fd_choice = 0,
         fd_particle = \<lparr> ed_angle = 0, ed_speed = 0, ed_size = 0, ed_life = 0,
                         ed_glow_size = 0 \<rparr> \<rparr>]
      ((Fireball_init 0 0 0 100 None None)\<lparr> fb_active := False \<rparr>)) = False"
proof -
  have v: "fb_y (Fireball_init 0 0 0 100 None None) = 0 \<and>
           fb_vy (Fireball_init 0 0 0 100 None None) = 12"
    by (simp add: Fireball_init_def Let_def)
  show ?thesis
    using v Fireball_never_reactivates
      [of "(Fireball_init 0 0 0 100 None None)\<lparr> fb_active := False \<rparr>"
          "[\<lparr> fd_random = 0, fd_choice = 1,
         fd_particle = \<lparr> ed_angle = 0, ed_speed = 0, ed_size = 0, ed_life = 0,
                         ed_glow_size = 0 \<rparr> \<rparr>,
       \<lparr> fd_random = 1 / 2, fd_choice = 0,
         fd_particle = \<lparr> ed_angle = 0, ed_speed = 0, ed_size = 0, ed_life = 0,
                         ed_glow_size = 0 \<rparr> \<rparr>]"]
    by (simp add: Fireball_update_fields)
qed

end
